theory Spec2Isabelle
  imports Main "HOL-Library.Word"
begin

section \<open>JavaScript values, errors and the outside world\<close>

text \<open>
  The handlers build plain JavaScript objects (\<^verbatim>\<open>{ success: true, storage: 'blob', ... }\<close>)
  and merge them with the spread operator. An object is modelled as the list of its
  properties in insertion order.
\<close>

datatype js_value =
    JUndefined
  | JBool bool
  | JNum nat
  | JStr string
  | JObj "(string \<times> js_value) list"
  | JArr "js_value list"

type_synonym js_object = "(string \<times> js_value) list"

text \<open>Property read \<^verbatim>\<open>o.k\<close>: a missing property reads as \<^verbatim>\<open>undefined\<close>.\<close>

definition get_prop :: "js_object \<Rightarrow> string \<Rightarrow> js_value" where
  "get_prop ps k = (case map_of ps k of Some v \<Rightarrow> v | None \<Rightarrow> JUndefined)"

text \<open>Property write: an existing key keeps its place, a new key goes last.\<close>

fun set_prop :: "js_object \<Rightarrow> string \<Rightarrow> js_value \<Rightarrow> js_object" where
  "set_prop [] k v = [(k, v)]"
| "set_prop ((k', v') # ps) k v =
     (if k' = k then (k, v) # ps else (k', v') # set_prop ps k v)"

text \<open>\<^verbatim>\<open>{ ...base, ...src }\<close>: the properties of \<open>src\<close> are copied over \<open>base\<close> in order.\<close>

fun spread :: "js_object \<Rightarrow> js_object \<Rightarrow> js_object" where
  "spread base [] = base"
| "spread base ((k, v) # ps) = spread (set_prop base k v) ps"

text \<open>An optional string of \<^verbatim>\<open>process.env\<close> or of a request as a JavaScript value.\<close>

definition js_of :: "string option \<Rightarrow> js_value" where
  "js_of s = (case s of None \<Rightarrow> JUndefined | Some v \<Rightarrow> JStr v)"

text \<open>
  Truthiness of a value that is either \<^verbatim>\<open>undefined\<close> or a string: \<^verbatim>\<open>undefined\<close> and the
  empty string are falsy.
\<close>

definition truthy :: "string option \<Rightarrow> bool" where
  "truthy s = (case s of None \<Rightarrow> False | Some v \<Rightarrow> v \<noteq> [])"

text \<open>\<^verbatim>\<open>a || b\<close> on such a value.\<close>

definition or_default :: "string option \<Rightarrow> string \<Rightarrow> string" where
  "or_default s d = (case s of None \<Rightarrow> d | Some v \<Rightarrow> if v \<noteq> [] then v else d)"

datatype js_error = Error string | TypeError string

fun message :: "js_error \<Rightarrow> string" where
  "message (Error m) = m"
| "message (TypeError m) = m"

text \<open>
  The content handed to the storage calls: a buffer of bytes, or \<^verbatim>\<open>undefined\<close> (a file
  part without a \<^verbatim>\<open>buffer\<close> property).
\<close>

datatype file_content = Buffer "8 word list" | NoContent

text \<open>\<^verbatim>\<open>Buffer.byteLength\<close> raises a TypeError on anything that is not a string or a buffer.\<close>

fun byteLength :: "file_content \<Rightarrow> js_error + nat" where
  "byteLength (Buffer bs) = Inr (length bs)"
| "byteLength NoContent =
     Inl (TypeError ''ERR_INVALID_ARG_TYPE: the string argument must be a string or a Buffer'')"

text \<open>
  Every call that leaves the handlers: the file system, the uuid generator, the blob
  client, the Graph client and the loggers. The trace of a run is the list of these calls
  in the order they were made, each with the fact that it returned or the error it threw.
  A call whose promise the code does not await is recorded as started: the code goes on at
  once, and what becomes of the call is not part of the sequence.
\<close>

datatype call =
    FsMkdir string
  | FsWriteFile string file_content
  | Uuidv4
  | BlobFromConnectionString "string option"
  | BlobCreateIfNotExists string
  | BlobUpload string string file_content nat
  | NewClientSecretCredential "string option" "string option" "string option"
  | GraphInitWithMiddleware
  | GraphApiGet string
  | Console string string
  | ContextLog string string

datatype event = Returned call | Threw call js_error | Started call

type_synonym trace = "event list"

text \<open>A computation that may throw: it takes the trace so far and returns the extended one.\<close>

type_synonym 'a io = "trace \<Rightarrow> (js_error + 'a) \<times> trace"

text \<open>
  The behaviour of everything outside the repository is a parameter: what each external
  call answers may depend on all that happened before (the trace), so that a disk may
  fail on the second write only, and the uuid generator may answer differently each time.
  \<open>path_join\<close>, \<open>dirname\<close> and \<open>blob_url\<close> stand for \<^verbatim>\<open>path.join\<close>, \<^verbatim>\<open>__dirname\<close> and the
  \<^verbatim>\<open>url\<close> property of a block blob client.
\<close>

record externals =
  dirname :: string
  path_join :: "string list \<Rightarrow> string"
  mkdir_res :: "trace \<Rightarrow> string \<Rightarrow> js_error option"
  writeFile_res :: "trace \<Rightarrow> string \<Rightarrow> file_content \<Rightarrow> js_error option"
  uuidv4_res :: "trace \<Rightarrow> string"
  fromConnectionString_res :: "trace \<Rightarrow> string option \<Rightarrow> js_error option"
  createIfNotExists_res :: "trace \<Rightarrow> string \<Rightarrow> js_error option"
  upload_res :: "trace \<Rightarrow> string \<Rightarrow> string \<Rightarrow> file_content \<Rightarrow> nat \<Rightarrow> js_error option"
  blob_url :: "string option \<Rightarrow> string \<Rightarrow> string \<Rightarrow> string"
  credential_res :: "trace \<Rightarrow> string option \<Rightarrow> string option \<Rightarrow> string option \<Rightarrow> js_error option"
  initWithMiddleware_res :: "trace \<Rightarrow> js_error option"
  graph_get_res :: "trace \<Rightarrow> string \<Rightarrow> js_error + file_content"

text \<open>\<^verbatim>\<open>process.env\<close>, restricted to the variables the handlers read.\<close>

record env =
  AzureStorageConnectionString :: "string option"
  LocalUploadPath :: "string option"
  SHAREPOINT_CLIENT_ID :: "string option"
  SHAREPOINT_CLIENT_SECRET :: "string option"
  SHAREPOINT_TENANT_ID :: "string option"

text \<open>Calls on the blob client, and calls on any remote client.\<close>

fun is_blob_call :: "call \<Rightarrow> bool" where
  "is_blob_call (BlobFromConnectionString _) = True"
| "is_blob_call (BlobCreateIfNotExists _) = True"
| "is_blob_call (BlobUpload _ _ _ _) = True"
| "is_blob_call _ = False"

fun is_remote_call :: "call \<Rightarrow> bool" where
  "is_remote_call (GraphApiGet _) = True"
| "is_remote_call (NewClientSecretCredential _ _ _) = True"
| "is_remote_call GraphInitWithMiddleware = True"
| "is_remote_call c = is_blob_call c"

fun is_storage_call :: "call \<Rightarrow> bool" where
  "is_storage_call (FsMkdir _) = True"
| "is_storage_call (FsWriteFile _ _) = True"
| "is_storage_call c = is_blob_call c"

fun call_of :: "event \<Rightarrow> call" where
  "call_of (Returned c) = c"
| "call_of (Threw c _) = c"
| "call_of (Started c) = c"

section \<open>The storage router: \<^verbatim>\<open>FileUploadHandler\<close> of \<^verbatim>\<open>src/functions/fileUpload/index.js\<close>\<close>

record FileUploadHandler =
  connectionString :: "string option"
  localUploadPath :: string

definition new_FileUploadHandler :: "externals \<Rightarrow> env \<Rightarrow> FileUploadHandler" where
  "new_FileUploadHandler X e =
     \<lparr> connectionString = AzureStorageConnectionString e,
       localUploadPath = or_default (LocalUploadPath e)
         (path_join X [dirname X, ''..'', ''..'', ''..'', ''uploads'']) \<rparr>"

text \<open>\<^verbatim>\<open>ensureLocalUploadPath\<close> catches the error of \<^verbatim>\<open>fs.mkdir\<close> and logs it: it never throws.\<close>

definition ensureLocalUploadPath :: "externals \<Rightarrow> FileUploadHandler \<Rightarrow> trace \<Rightarrow> trace" where
  "ensureLocalUploadPath X h t =
     (case mkdir_res X t (localUploadPath h) of
        None \<Rightarrow> t @ [Returned (FsMkdir (localUploadPath h))]
      | Some e \<Rightarrow> t @ [Threw (FsMkdir (localUploadPath h)) e,
                       Returned (Console ''error'' ''Error creating upload directory:'')])"

definition uploadToBlob ::
  "externals \<Rightarrow> FileUploadHandler \<Rightarrow> file_content \<Rightarrow> string \<Rightarrow> string \<Rightarrow> js_object io" where
  "uploadToBlob X h fileContent fileName containerName t =
     (case fromConnectionString_res X t (connectionString h) of
        Some e \<Rightarrow> (Inl e, t @ [Threw (BlobFromConnectionString (connectionString h)) e])
      | None \<Rightarrow>
     (let t1 = t @ [Returned (BlobFromConnectionString (connectionString h))] in
      case createIfNotExists_res X t1 containerName of
        Some e \<Rightarrow> (Inl e, t1 @ [Threw (BlobCreateIfNotExists containerName) e])
      | None \<Rightarrow>
     (let t2 = t1 @ [Returned (BlobCreateIfNotExists containerName)];
          blobName = uuidv4_res X t2 @ ''-'' @ fileName;
          t3 = t2 @ [Returned Uuidv4]
      in case byteLength fileContent of
        Inl e \<Rightarrow> (Inl e, t3)
      | Inr n \<Rightarrow>
     (case upload_res X t3 containerName blobName fileContent n of
        Some e \<Rightarrow> (Inl e, t3 @ [Threw (BlobUpload containerName blobName fileContent n) e])
      | None \<Rightarrow>
        (Inr [(''success'', JBool True),
              (''storage'', JStr ''blob''),
              (''url'', JStr (blob_url X (connectionString h) containerName blobName)),
              (''blobName'', JStr blobName)],
         t3 @ [Returned (BlobUpload containerName blobName fileContent n)])))))"

definition saveToLocal ::
  "externals \<Rightarrow> FileUploadHandler \<Rightarrow> file_content \<Rightarrow> string \<Rightarrow> js_object io" where
  "saveToLocal X h fileContent fileName t =
     (let uniqueFileName = uuidv4_res X t @ ''-'' @ fileName;
          t1 = t @ [Returned Uuidv4];
          filePath = path_join X [localUploadPath h, uniqueFileName]
      in case writeFile_res X t1 filePath fileContent of
        Some e \<Rightarrow> (Inl e, t1 @ [Threw (FsWriteFile filePath fileContent) e])
      | None \<Rightarrow>
        (Inr [(''success'', JBool True),
              (''storage'', JStr ''local''),
              (''localPath'', JStr filePath),
              (''fileName'', JStr uniqueFileName)],
         t1 @ [Returned (FsWriteFile filePath fileContent)]))"

definition uploadFile ::
  "externals \<Rightarrow> FileUploadHandler \<Rightarrow> file_content \<Rightarrow> string \<Rightarrow> js_object io" where
  "uploadFile X h fileContent fileName t =
     (let t1 = ensureLocalUploadPath X h t in
      if truthy (connectionString h) then
        (case uploadToBlob X h fileContent fileName ''uploads'' t1 of
           (Inr r, t2) \<Rightarrow> (Inr r, t2)
         | (Inl e, t2) \<Rightarrow>
             saveToLocal X h fileContent fileName
               (t2 @ [Returned (Console ''warn''
                  ''Blob storage upload failed, falling back to local storage:'')]))
      else
        saveToLocal X h fileContent fileName
          (t1 @ [Returned (Console ''info''
             ''No Azure Storage connection string found, using local storage'')]))"

section \<open>The same class in the two other modules of the repository\<close>

text \<open>
  The ES module (\<^verbatim>\<open>src/unnamed/part_001\<close>) declares the class with private methods
  \<^verbatim>\<open>#uploadToBlob\<close> and \<^verbatim>\<open>#saveToLocal\<close>, whose bodies are those of \<open>uploadToBlob\<close> and
  \<open>saveToLocal\<close> above, statement for statement. Its default directory is two levels up.
  Its constructor runs \<^verbatim>\<open>this.#initializeStorage().catch(console.error)\<close>: \<^verbatim>\<open>fs.mkdir\<close> is called
  at once and nothing waits for it, so the constructor only starts the call; \<^verbatim>\<open>uploadFile\<close>
  does not create the directory.
\<close>

definition new_FileUploadHandler_p1 :: "externals \<Rightarrow> env \<Rightarrow> trace \<Rightarrow> FileUploadHandler \<times> trace" where
  "new_FileUploadHandler_p1 X e t =
     (let h = \<lparr> connectionString = AzureStorageConnectionString e,
                localUploadPath = or_default (LocalUploadPath e)
                  (path_join X [dirname X, ''..'', ''..'', ''uploads'']) \<rparr>
      in (h, t @ [Started (FsMkdir (localUploadPath h))]))"

definition uploadFile_p1 ::
  "externals \<Rightarrow> FileUploadHandler \<Rightarrow> file_content \<Rightarrow> string \<Rightarrow> js_object io" where
  "uploadFile_p1 X h fileContent fileName t =
     (if truthy (connectionString h) then
        (case uploadToBlob X h fileContent fileName ''uploads'' t of
           (Inr r, t2) \<Rightarrow> (Inr r, t2)
         | (Inl e, t2) \<Rightarrow>
             saveToLocal X h fileContent fileName
               (t2 @ [Returned (Console ''warn''
                  ''Blob storage upload failed, falling back to local storage:'')]))
      else
        saveToLocal X h fileContent fileName
          (t @ [Returned (Console ''info''
             ''No Azure Storage connection string found, using local storage'')]))"

text \<open>
  The public methods of an instance of that class. \<^verbatim>\<open>fileHandler.uploadToBlob\<close> is not one of
  them: calling it raises a TypeError.
\<close>

definition FileUploadHandler_p1_methods ::
  "(string \<times> (externals \<Rightarrow> FileUploadHandler \<Rightarrow> file_content \<Rightarrow> string \<Rightarrow> js_object io)) list" where
  "FileUploadHandler_p1_methods = [(''uploadFile'', uploadFile_p1)]"

definition call_method_p1 ::
  "string \<Rightarrow> externals \<Rightarrow> FileUploadHandler \<Rightarrow> file_content \<Rightarrow> string \<Rightarrow> js_object io" where
  "call_method_p1 m X h fileContent fileName t =
     (case map_of FileUploadHandler_p1_methods m of
        None \<Rightarrow> (Inl (TypeError (''fileHandler.'' @ m @ '' is not a function'')), t)
      | Some f \<Rightarrow> f X h fileContent fileName t)"

text \<open>
  The CommonJS module (\<^verbatim>\<open>src/unnamed/part_000\<close>) stores a file under the name it is given:
  \<^verbatim>\<open>saveToLocal\<close> returns the path, logs and rethrows a write error; \<^verbatim>\<open>uploadToBlob\<close>
  returns the blob's url and falls back to \<^verbatim>\<open>saveToLocal\<close> itself.
\<close>

definition saveToLocal_p0 ::
  "externals \<Rightarrow> FileUploadHandler \<Rightarrow> file_content \<Rightarrow> string \<Rightarrow> string io" where
  "saveToLocal_p0 X h fileContent fileName t =
     (let filePath = path_join X [localUploadPath h, fileName]
      in case writeFile_res X t filePath fileContent of
        Some e \<Rightarrow> (Inl e, t @ [Threw (FsWriteFile filePath fileContent) e,
                                Returned (Console ''error'' ''Failed to save file locally:'')])
      | None \<Rightarrow> (Inr filePath, t @ [Returned (FsWriteFile filePath fileContent)]))"

text \<open>\<^verbatim>\<open>fileContent.length\<close>: reading a property of \<^verbatim>\<open>undefined\<close> raises a TypeError.\<close>

fun content_length :: "file_content \<Rightarrow> js_error + nat" where
  "content_length (Buffer bs) = Inr (length bs)"
| "content_length NoContent =
     Inl (TypeError ''Cannot read properties of undefined (reading length)'')"

text \<open>The \<^verbatim>\<open>catch\<close> block of \<^verbatim>\<open>uploadToBlob\<close> in that module, then the method.\<close>

definition uploadToBlob_p0_failed ::
  "externals \<Rightarrow> FileUploadHandler \<Rightarrow> file_content \<Rightarrow> string \<Rightarrow> string io" where
  "uploadToBlob_p0_failed X h fileContent fileName t =
     saveToLocal_p0 X h fileContent fileName
       (t @ [Returned (Console ''error'' ''Failed to upload to blob storage:'')])"

definition uploadToBlob_p0 ::
  "externals \<Rightarrow> FileUploadHandler \<Rightarrow> file_content \<Rightarrow> string \<Rightarrow> string \<Rightarrow> string io" where
  "uploadToBlob_p0 X h fileContent fileName containerName t =
     (case fromConnectionString_res X t (connectionString h) of
        Some e \<Rightarrow>
          uploadToBlob_p0_failed X h fileContent fileName
            (t @ [Threw (BlobFromConnectionString (connectionString h)) e])
      | None \<Rightarrow>
     (let t1 = t @ [Returned (BlobFromConnectionString (connectionString h))] in
      case createIfNotExists_res X t1 containerName of
        Some e \<Rightarrow>
          uploadToBlob_p0_failed X h fileContent fileName
            (t1 @ [Threw (BlobCreateIfNotExists containerName) e])
      | None \<Rightarrow>
     (let t2 = t1 @ [Returned (BlobCreateIfNotExists containerName)] in
      case content_length fileContent of
        Inl e \<Rightarrow> uploadToBlob_p0_failed X h fileContent fileName t2
      | Inr n \<Rightarrow>
     (case upload_res X t2 containerName fileName fileContent n of
        Some e \<Rightarrow>
          uploadToBlob_p0_failed X h fileContent fileName
            (t2 @ [Threw (BlobUpload containerName fileName fileContent n) e])
      | None \<Rightarrow>
          (Inr (blob_url X (connectionString h) containerName fileName),
           t2 @ [Returned (BlobUpload containerName fileName fileContent n)])))))"

section \<open>The source resolver: \<^verbatim>\<open>SharePointHandler\<close>\<close>

datatype graph_client = GraphClient

record SharePointHandler =
  client :: "graph_client option"

text \<open>\<^verbatim>\<open>src/functions/sharePointUpload/index.js\<close>: without the three credentials no client is built.\<close>

definition new_SharePointHandler :: "externals \<Rightarrow> env \<Rightarrow> SharePointHandler io" where
  "new_SharePointHandler X e t =
     (if \<not> truthy (SHAREPOINT_CLIENT_ID e) \<or> \<not> truthy (SHAREPOINT_CLIENT_SECRET e)
         \<or> \<not> truthy (SHAREPOINT_TENANT_ID e)
      then (Inr \<lparr> client = None \<rparr>, t)
      else
        (let c = NewClientSecretCredential (SHAREPOINT_TENANT_ID e) (SHAREPOINT_CLIENT_ID e)
                   (SHAREPOINT_CLIENT_SECRET e)
         in case credential_res X t (SHAREPOINT_TENANT_ID e) (SHAREPOINT_CLIENT_ID e)
                   (SHAREPOINT_CLIENT_SECRET e) of
           Some err \<Rightarrow> (Inl err, t @ [Threw c err])
         | None \<Rightarrow>
             (case initWithMiddleware_res X (t @ [Returned c]) of
                Some err \<Rightarrow> (Inl err, t @ [Returned c, Threw GraphInitWithMiddleware err])
              | None \<Rightarrow> (Inr \<lparr> client = Some GraphClient \<rparr>,
                          t @ [Returned c, Returned GraphInitWithMiddleware]))))"

definition getFileFromSharePoint ::
  "externals \<Rightarrow> SharePointHandler \<Rightarrow> string \<Rightarrow> string \<Rightarrow> string \<Rightarrow> file_content io" where
  "getFileFromSharePoint X sp siteId driveId itemId t =
     (case client sp of
        None \<Rightarrow> (Inl (Error ''SharePoint client not initialized - missing credentials''), t)
      | Some _ \<Rightarrow>
          (let url = ''/sites/'' @ siteId @ ''/drives/'' @ driveId @ ''/items/'' @ itemId @ ''/content''
           in case graph_get_res X t url of
             Inr response \<Rightarrow> (Inr response, t @ [Returned (GraphApiGet url)])
           | Inl error \<Rightarrow>
               (Inl (Error (''Failed to fetch file from SharePoint: '' @ message error)),
                t @ [Threw (GraphApiGet url) error])))"

text \<open>\<^verbatim>\<open>src/unnamed/part_001\<close>: the constructor has no guard, the fetch logs and rethrows.\<close>

definition new_SharePointHandler_p1 :: "externals \<Rightarrow> env \<Rightarrow> SharePointHandler io" where
  "new_SharePointHandler_p1 X e t =
     (let c = NewClientSecretCredential (SHAREPOINT_TENANT_ID e) (SHAREPOINT_CLIENT_ID e)
                (SHAREPOINT_CLIENT_SECRET e)
      in case credential_res X t (SHAREPOINT_TENANT_ID e) (SHAREPOINT_CLIENT_ID e)
                (SHAREPOINT_CLIENT_SECRET e) of
        Some err \<Rightarrow> (Inl err, t @ [Threw c err])
      | None \<Rightarrow>
          (case initWithMiddleware_res X (t @ [Returned c]) of
             Some err \<Rightarrow> (Inl err, t @ [Returned c, Threw GraphInitWithMiddleware err])
           | None \<Rightarrow> (Inr \<lparr> client = Some GraphClient \<rparr>,
                       t @ [Returned c, Returned GraphInitWithMiddleware])))"

definition getFileFromSharePoint_p1 ::
  "externals \<Rightarrow> SharePointHandler \<Rightarrow> string \<Rightarrow> string \<Rightarrow> string \<Rightarrow> file_content io" where
  "getFileFromSharePoint_p1 X sp siteId driveId itemId t =
     (let url = ''/sites/'' @ siteId @ ''/drives/'' @ driveId @ ''/items/'' @ itemId @ ''/content''
      in case graph_get_res X t url of
        Inr response \<Rightarrow> (Inr response, t @ [Returned (GraphApiGet url)])
      | Inl error \<Rightarrow>
          (Inl error, t @ [Threw (GraphApiGet url) error,
                           Returned (Console ''error'' ''SharePoint file fetch failed:'')]))"

section \<open>The endpoints\<close>

record http_response =
  status :: nat
  body :: js_object

text \<open>A file part of a multipart request, and a file reference of a SharePoint request.\<close>

record upload_file =
  buffer :: file_content
  originalname :: "string option"

record sharepoint_file =
  siteId :: "string option"
  driveId :: "string option"
  itemId :: "string option"
  fileName :: "string option"

record sharepoint_body =
  files :: "sharepoint_file list option"

text \<open>A template literal prints \<^verbatim>\<open>undefined\<close> for a missing value.\<close>

definition to_str :: "string option \<Rightarrow> string" where
  "to_str s = (case s of None \<Rightarrow> ''undefined'' | Some v \<Rightarrow> v)"

subsection \<open>Direct upload: \<^verbatim>\<open>src/functions/fileUpload/index.js\<close>\<close>

text \<open>One turn of the loop over \<^verbatim>\<open>req.files\<close>: the entry pushed for a file.\<close>

definition process_file ::
  "externals \<Rightarrow> FileUploadHandler \<Rightarrow> upload_file \<Rightarrow> trace \<Rightarrow> js_value \<times> trace" where
  "process_file X fileHandler file t =
     (case uploadFile X fileHandler (buffer file) (or_default (originalname file) ''unnamed-file'') t of
        (Inr result, t') \<Rightarrow>
          (JObj (spread [(''fileName'', js_of (originalname file))] result), t')
      | (Inl error, t') \<Rightarrow>
          (JObj [(''fileName'', JStr (or_default (originalname file) ''unnamed-file'')),
                 (''success'', JBool False),
                 (''error'', JStr (message error))], t'))"

fun process_files ::
  "externals \<Rightarrow> FileUploadHandler \<Rightarrow> upload_file list \<Rightarrow> js_value list \<Rightarrow> trace
     \<Rightarrow> js_value list \<times> trace" where
  "process_files X fileHandler [] results t = (results, t)"
| "process_files X fileHandler (file # rest) results t =
     (case process_file X fileHandler file t of
        (r, t') \<Rightarrow> process_files X fileHandler rest (results @ [r]) t')"

definition fileUpload ::
  "externals \<Rightarrow> env \<Rightarrow> upload_file list option \<Rightarrow> trace \<Rightarrow> http_response \<times> trace" where
  "fileUpload X e req_files t =
     (let fileHandler = new_FileUploadHandler X e in
      case req_files of
        None \<Rightarrow>
          (\<lparr> status = 400,
             body = [(''error'', JStr ''No files were uploaded''),
                     (''details'', JStr ''Request must include at least one file'')] \<rparr>, t)
      | Some [] \<Rightarrow>
          (\<lparr> status = 400,
             body = [(''error'', JStr ''No files were uploaded''),
                     (''details'', JStr ''Request must include at least one file'')] \<rparr>, t)
      | Some fs \<Rightarrow>
          (case process_files X fileHandler fs [] t of
             (results, t') \<Rightarrow>
               (\<lparr> status = 200,
                  body = [(''message'', JStr ''Files processed successfully''),
                          (''results'', JArr results)] \<rparr>, t')))"

subsection \<open>SharePoint upload: \<^verbatim>\<open>src/functions/sharePointUpload/index.js\<close>\<close>

text \<open>
  The module reads \<^verbatim>\<open>const { FileUploadHandler } = require('../fileUpload/index.js')\<close>.
  That module ends with \<^verbatim>\<open>module.exports = async function (context, req) { ... }\<close>: the
  value \<^verbatim>\<open>require\<close> returns is the handler function, which is given no property. The list
  of the properties the module exports by name is therefore empty, and the destructured
  \<^verbatim>\<open>FileUploadHandler\<close> is \<^verbatim>\<open>undefined\<close>.
\<close>

definition fileUpload_index_exports :: "(string \<times> (externals \<Rightarrow> env \<Rightarrow> FileUploadHandler)) list" where
  "fileUpload_index_exports = []"

definition imported_FileUploadHandler :: "(externals \<Rightarrow> env \<Rightarrow> FileUploadHandler) option" where
  "imported_FileUploadHandler = map_of fileUpload_index_exports ''FileUploadHandler''"

text \<open>One turn of the loop over \<^verbatim>\<open>files\<close>, then the loop.\<close>

definition process_sharepoint_file ::
  "externals \<Rightarrow> SharePointHandler \<Rightarrow> FileUploadHandler \<Rightarrow> sharepoint_file \<Rightarrow> trace
     \<Rightarrow> js_value \<times> trace" where
  "process_sharepoint_file X sharePointHandler fileHandler file t =
     (if \<not> truthy (siteId file) \<or> \<not> truthy (driveId file) \<or> \<not> truthy (itemId file)
         \<or> \<not> truthy (fileName file)
      then (JObj [(''fileName'', JStr (or_default (fileName file) ''unknown'')),
                  (''success'', JBool False),
                  (''error'', JStr ''Missing required SharePoint file information'')], t)
      else
        (case getFileFromSharePoint X sharePointHandler (to_str (siteId file)) (to_str (driveId file))
                (to_str (itemId file)) t of
           (Inl error, t1) \<Rightarrow>
             (JObj [(''fileName'', JStr (or_default (fileName file) ''unknown'')),
                    (''success'', JBool False),
                    (''error'', JStr (message error))], t1)
         | (Inr fileContent, t1) \<Rightarrow>
             (case uploadFile X fileHandler fileContent (to_str (fileName file)) t1 of
                (Inl error, t2) \<Rightarrow>
                  (JObj [(''fileName'', JStr (or_default (fileName file) ''unknown'')),
                         (''success'', JBool False),
                         (''error'', JStr (message error))], t2)
              | (Inr result, t2) \<Rightarrow>
                  (JObj (spread [(''fileName'', js_of (fileName file))] result), t2))))"

fun process_sharepoint_files ::
  "externals \<Rightarrow> SharePointHandler \<Rightarrow> FileUploadHandler \<Rightarrow> sharepoint_file list \<Rightarrow> js_value list
     \<Rightarrow> trace \<Rightarrow> js_value list \<times> trace" where
  "process_sharepoint_files X sp fh [] results t = (results, t)"
| "process_sharepoint_files X sp fh (file # rest) results t =
     (case process_sharepoint_file X sp fh file t of
        (r, t') \<Rightarrow> process_sharepoint_files X sp fh rest (results @ [r]) t')"

text \<open>\<^verbatim>\<open>req.body?.files\<close>: \<^verbatim>\<open>undefined\<close> when the request has no body.\<close>

definition optional_files :: "sharepoint_body option \<Rightarrow> sharepoint_file list option" where
  "optional_files req_body = (case req_body of None \<Rightarrow> None | Some b \<Rightarrow> files b)"

text \<open>The outer \<^verbatim>\<open>catch\<close> of the handler.\<close>

definition sharePointUpload_failed :: "js_error \<Rightarrow> trace \<Rightarrow> http_response \<times> trace" where
  "sharePointUpload_failed error t =
     (\<lparr> status = 500,
        body = [(''error'', JStr ''SharePoint upload failed''),
                (''details'', JStr (message error))] \<rparr>,
      t @ [Returned (ContextLog ''error'' ''SharePoint upload error:'')])"

definition sharePointUpload ::
  "externals \<Rightarrow> env \<Rightarrow> sharepoint_body option \<Rightarrow> trace \<Rightarrow> http_response \<times> trace" where
  "sharePointUpload X e req_body t =
     (if \<not> truthy (SHAREPOINT_CLIENT_ID e) \<or> \<not> truthy (SHAREPOINT_CLIENT_SECRET e) then
        (\<lparr> status = 200,
           body = [(''message'', JStr ''SharePoint integration not configured. Using mock data.''),
                   (''mockMode'', JBool True),
                   (''results'', JArr [JObj
                      [(''fileName'', JStr ''mock-file.txt''),
                       (''success'', JBool True),
                       (''storage'', JStr ''local''),
                       (''localPath'', JStr (path_join X
                          [or_default (LocalUploadPath e) ''uploads'', ''mock-file.txt''])),
                       (''mockData'', JBool True)]])] \<rparr>,
         t @ [Returned (ContextLog ''warn'' ''SharePoint credentials not configured, using mock data'')])
      else
        (case optional_files req_body of
           None \<Rightarrow>
             (\<lparr> status = 400,
                body = [(''error'', JStr ''No files provided''),
                        (''details'', JStr ''Request must include an array of SharePoint files'')] \<rparr>, t)
         | Some [] \<Rightarrow>
             (\<lparr> status = 400,
                body = [(''error'', JStr ''No files provided''),
                        (''details'', JStr ''Request must include an array of SharePoint files'')] \<rparr>, t)
         | Some fs \<Rightarrow>
             (case new_SharePointHandler X e t of
                (Inl error, t1) \<Rightarrow> sharePointUpload_failed error t1
              | (Inr sharePointHandler, t1) \<Rightarrow>
                  (case imported_FileUploadHandler of
                     None \<Rightarrow>
                       sharePointUpload_failed (TypeError ''FileUploadHandler is not a constructor'') t1
                   | Some cls \<Rightarrow>
                       (case process_sharepoint_files X sharePointHandler (cls X e) fs [] t1 of
                          (results, t2) \<Rightarrow>
                            (\<lparr> status = 200,
                               body = [(''message'', JStr ''SharePoint files processed''),
                                       (''results'', JArr results)] \<rparr>, t2))))))"

subsection \<open>SharePoint upload of the ES module (\<^verbatim>\<open>src/unnamed/part_001\<close>)\<close>

text \<open>
  The class is declared in the module itself, so it is constructed; the loop then calls
  \<^verbatim>\<open>fileHandler.uploadToBlob\<close>, which is looked up among the public methods.
\<close>

definition process_sharepoint_file_p1 ::
  "externals \<Rightarrow> SharePointHandler \<Rightarrow> FileUploadHandler \<Rightarrow> sharepoint_file \<Rightarrow> trace
     \<Rightarrow> js_value \<times> trace" where
  "process_sharepoint_file_p1 X sharePointHandler fileHandler file t =
     (if \<not> truthy (siteId file) \<or> \<not> truthy (driveId file) \<or> \<not> truthy (itemId file)
         \<or> \<not> truthy (fileName file)
      then (JObj [(''fileName'', JStr (or_default (fileName file) ''unknown'')),
                  (''success'', JBool False),
                  (''error'', JStr ''Missing required SharePoint file information'')], t)
      else
        (case getFileFromSharePoint_p1 X sharePointHandler (to_str (siteId file))
                (to_str (driveId file)) (to_str (itemId file)) t of
           (Inl error, t1) \<Rightarrow>
             (JObj [(''fileName'', JStr (or_default (fileName file) ''unknown'')),
                    (''success'', JBool False),
                    (''error'', JStr (message error))], t1)
         | (Inr fileContent, t1) \<Rightarrow>
             (case call_method_p1 ''uploadToBlob'' X fileHandler fileContent (to_str (fileName file)) t1 of
                (Inl error, t2) \<Rightarrow>
                  (JObj [(''fileName'', JStr (or_default (fileName file) ''unknown'')),
                         (''success'', JBool False),
                         (''error'', JStr (message error))], t2)
              | (Inr uploadResult, t2) \<Rightarrow>
                  (JObj (spread [(''fileName'', js_of (fileName file))] uploadResult), t2))))"

fun process_sharepoint_files_p1 ::
  "externals \<Rightarrow> SharePointHandler \<Rightarrow> FileUploadHandler \<Rightarrow> sharepoint_file list \<Rightarrow> js_value list
     \<Rightarrow> trace \<Rightarrow> js_value list \<times> trace" where
  "process_sharepoint_files_p1 X sp fh [] results t = (results, t)"
| "process_sharepoint_files_p1 X sp fh (file # rest) results t =
     (case process_sharepoint_file_p1 X sp fh file t of
        (r, t') \<Rightarrow> process_sharepoint_files_p1 X sp fh rest (results @ [r]) t')"

definition sharePointUpload_p1_failed :: "js_error \<Rightarrow> trace \<Rightarrow> http_response \<times> trace" where
  "sharePointUpload_p1_failed error t =
     (\<lparr> status = 500,
        body = [(''error'', JStr ''SharePoint upload failed''),
                (''details'', JStr (message error))] \<rparr>,
      t @ [Returned (ContextLog ''error'' ''SharePoint upload error:'')])"

text \<open>
  \<open>request_json\<close> is what \<^verbatim>\<open>await request.json()\<close> gives: an error when the body is empty or
  does not parse, \<open>None\<close> when the body is the JSON value \<^verbatim>\<open>null\<close>, else the parsed value (a
  value that is not an object has no \<^verbatim>\<open>files\<close>). Destructuring \<^verbatim>\<open>{ files }\<close> from \<^verbatim>\<open>null\<close> raises a
  TypeError inside the \<^verbatim>\<open>try\<close>. \<^verbatim>\<open>!files || !Array.isArray(files) || files.length === 0\<close> holds
  of a missing and of an empty list.
\<close>

definition sharePointUpload_p1 ::
  "externals \<Rightarrow> env \<Rightarrow> js_error + sharepoint_body option \<Rightarrow> trace
     \<Rightarrow> http_response \<times> trace" where
  "sharePointUpload_p1 X e request_json t =
     (case request_json of
        Inl error \<Rightarrow> sharePointUpload_p1_failed error t
      | Inr None \<Rightarrow>
          sharePointUpload_p1_failed
            (TypeError ''Cannot destructure property files of null'') t
      | Inr (Some b) \<Rightarrow>
        (case files b of
           None \<Rightarrow>
             (\<lparr> status = 400,
                body = [(''error'', JStr ''Invalid request. Expected array of SharePoint files'')] \<rparr>, t)
         | Some [] \<Rightarrow>
             (\<lparr> status = 400,
                body = [(''error'', JStr ''Invalid request. Expected array of SharePoint files'')] \<rparr>, t)
         | Some fs \<Rightarrow>
             (case new_SharePointHandler_p1 X e t of
                (Inl error, t1) \<Rightarrow> sharePointUpload_p1_failed error t1
              | (Inr sharePointHandler, t1) \<Rightarrow>
                  (case new_FileUploadHandler_p1 X e t1 of
                     (fileHandler, t2) \<Rightarrow>
                       (case process_sharepoint_files_p1 X sharePointHandler fileHandler fs [] t2 of
                          (results, t3) \<Rightarrow>
                            (\<lparr> status = 200,
                               body = [(''message'', JStr ''SharePoint files processed''),
                                       (''results'', JArr results)] \<rparr>, t3))))))"

section \<open>Observations on outcomes and traces\<close>

text \<open>The calls made between two points of a run, and the calls that fetch from SharePoint.\<close>

definition calls_since :: "trace \<Rightarrow> trace \<Rightarrow> call list" where
  "calls_since t t' = map call_of (drop (length t) t')"

fun is_fetch_call :: "call \<Rightarrow> bool" where
  "is_fetch_call (GraphApiGet _) = True"
| "is_fetch_call _ = False"

fun local_write_ok :: "event \<Rightarrow> bool" where
  "local_write_ok (Returned (FsWriteFile _ _)) = True"
| "local_write_ok _ = False"

fun local_write_error :: "event \<Rightarrow> js_error option" where
  "local_write_error (Threw (FsWriteFile _ _) e) = Some e"
| "local_write_error _ = None"

fun blob_upload_ok :: "event \<Rightarrow> bool" where
  "blob_upload_ok (Returned (BlobUpload _ _ _ _)) = True"
| "blob_upload_ok _ = False"

text \<open>
  The three ways a call of \<^verbatim>\<open>uploadFile\<close> can end: a result that reports the local disk,
  returned right after \<^verbatim>\<open>fs.writeFile\<close> succeeded; a result that reports the blob store,
  returned right after the blob upload succeeded; the error of \<^verbatim>\<open>fs.writeFile\<close>, thrown.
\<close>

definition stored_locally :: "(js_error + js_object) \<times> trace \<Rightarrow> bool" where
  "stored_locally out =
     (case out of
        (Inr r, t') \<Rightarrow> get_prop r ''storage'' = JStr ''local'' \<and> get_prop r ''success'' = JBool True
                       \<and> t' \<noteq> [] \<and> local_write_ok (last t')
      | (Inl _, _) \<Rightarrow> False)"

definition stored_in_blob :: "(js_error + js_object) \<times> trace \<Rightarrow> bool" where
  "stored_in_blob out =
     (case out of
        (Inr r, t') \<Rightarrow> get_prop r ''storage'' = JStr ''blob'' \<and> get_prop r ''success'' = JBool True
                       \<and> t' \<noteq> [] \<and> blob_upload_ok (last t')
      | (Inl _, _) \<Rightarrow> False)"

definition threw_local_write_error :: "(js_error + js_object) \<times> trace \<Rightarrow> bool" where
  "threw_local_write_error out =
     (case out of
        (Inl e, t') \<Rightarrow> t' \<noteq> [] \<and> local_write_error (last t') = Some e
      | (Inr _, _) \<Rightarrow> False)"

text \<open>
  The name under which a result says the file was stored: \<^verbatim>\<open>blobName\<close> in a blob result,
  \<^verbatim>\<open>fileName\<close> in a local one.
\<close>

definition generatedName :: "js_object \<Rightarrow> js_value" where
  "generatedName r =
     (if get_prop r ''storage'' = JStr ''blob'' then get_prop r ''blobName''
      else get_prop r ''fileName'')"

section \<open>Concrete environments\<close>

definition join_path :: "string list \<Rightarrow> string" where
  "join_path ps = foldr (\<lambda>p acc. if acc = [] then p else p @ ''/'' @ acc) ps []"

text \<open>
  Every service answers; \<^verbatim>\<open>fs.writeFile\<close> rejects \<^verbatim>\<open>undefined\<close> data as Node does; the
  n-th uuid is a run of n+1 letters, so no two are equal.
\<close>

definition services_up :: externals where
  "services_up =
     \<lparr> dirname = ''/site/wwwroot/src/functions/fileUpload'',
       path_join = join_path,
       mkdir_res = (\<lambda>t p. None),
       writeFile_res = (\<lambda>t p c. case c of
           NoContent \<Rightarrow> Some (TypeError ''ERR_INVALID_ARG_TYPE: the data argument must be a string or a Buffer'')
         | Buffer bs \<Rightarrow> None),
       uuidv4_res = (\<lambda>t. replicate (Suc (length t)) CHR ''u''),
       fromConnectionString_res = (\<lambda>t cs. None),
       createIfNotExists_res = (\<lambda>t cn. None),
       upload_res = (\<lambda>t cn b c n. None),
       blob_url = (\<lambda>cs cn b. ''https://blob.example/'' @ cn @ ''/'' @ b),
       credential_res = (\<lambda>t tenant cid secret. None),
       initWithMiddleware_res = (\<lambda>t. None),
       graph_get_res = (\<lambda>t u. Inr (Buffer [104, 105])) \<rparr>"

definition blob_down :: externals where
  "blob_down = services_up \<lparr> upload_res := (\<lambda>t cn b c n. Some (Error ''ECONNREFUSED'')) \<rparr>"

definition disk_full :: externals where
  "disk_full = services_up \<lparr> writeFile_res := (\<lambda>t p c. Some (Error ''ENOSPC: no space left on device'')) \<rparr>"

definition blob_down_disk_full :: externals where
  "blob_down_disk_full = blob_down \<lparr> writeFile_res := (\<lambda>t p c. Some (Error ''ENOSPC: no space left on device'')) \<rparr>"

definition env_configured :: env where
  "env_configured =
     \<lparr> AzureStorageConnectionString = Some ''UseDevelopmentStorage=true'',
       LocalUploadPath = Some ''uploads'',
       SHAREPOINT_CLIENT_ID = Some ''client-id'',
       SHAREPOINT_CLIENT_SECRET = Some ''client-secret'',
       SHAREPOINT_TENANT_ID = Some ''tenant-id'' \<rparr>"

definition env_local_only :: env where
  "env_local_only =
     \<lparr> AzureStorageConnectionString = None,
       LocalUploadPath = Some ''uploads'',
       SHAREPOINT_CLIENT_ID = None,
       SHAREPOINT_CLIENT_SECRET = None,
       SHAREPOINT_TENANT_ID = None \<rparr>"

definition handler_with_blob :: FileUploadHandler where
  "handler_with_blob =
     \<lparr> connectionString = Some ''UseDevelopmentStorage=true'', localUploadPath = ''uploads'' \<rparr>"

definition handler_local_only :: FileUploadHandler where
  "handler_local_only = \<lparr> connectionString = None, localUploadPath = ''uploads'' \<rparr>"

definition hello :: file_content where
  "hello = Buffer [104, 105]"

definition complete_file :: sharepoint_file where
  "complete_file =
     \<lparr> siteId = Some ''site'', driveId = Some ''drive'', itemId = Some ''item'',
       fileName = Some ''a.txt'' \<rparr>"

definition file_without_itemId :: sharepoint_file where
  "file_without_itemId =
     \<lparr> siteId = Some ''site'', driveId = Some ''drive'', itemId = None,
       fileName = Some ''b.txt'' \<rparr>"


section \<open>Properties of the storage router\<close>

lemmas concrete_defs =
  services_up_def blob_down_def disk_full_def blob_down_disk_full_def env_configured_def
  env_local_only_def handler_with_blob_def handler_local_only_def hello_def complete_file_def
  file_without_itemId_def join_path_def

lemmas run_defs =
  uploadFile_def uploadFile_p1_def uploadToBlob_def saveToLocal_def ensureLocalUploadPath_def
  truthy_def or_default_def get_prop_def Let_def stored_locally_def stored_in_blob_def
  threw_local_write_error_def calls_since_def

subsection \<open>How the two storage calls end\<close>

lemma saveToLocal_outcome:
  "stored_locally (saveToLocal X h c f t) \<or> threw_local_write_error (saveToLocal X h c f t)"
  by (simp add: saveToLocal_def Let_def get_prop_def stored_locally_def threw_local_write_error_def
        split: option.splits)


lemma calls_since_append: "calls_since t (t @ new) = map call_of new"
  by (simp add: calls_since_def)

lemma ensureLocalUploadPath_trace:
  "\<exists>new. ensureLocalUploadPath X h t = t @ new \<and> filter is_remote_call (map call_of new) = []"
  by (simp add: ensureLocalUploadPath_def split: option.splits)

lemma saveToLocal_trace:
  "\<exists>new. snd (saveToLocal X h c f t) = t @ new \<and> filter is_remote_call (map call_of new) = []"
  by (simp add: saveToLocal_def Let_def split: option.splits)

lemma uploadToBlob_result:
  assumes "uploadToBlob X h c f cn t = (Inr r, t')"
  shows "\<exists>u b n. r = [(''success'', JBool True), (''storage'', JStr ''blob''),
                       (''url'', JStr u), (''blobName'', JStr b)]
               \<and> t' \<noteq> [] \<and> last t' = Returned (BlobUpload cn b c n)
               \<and> upload_res X (butlast t') cn b c n = None"
  using assms
  by (auto simp: uploadToBlob_def Let_def butlast_append split: option.splits sum.splits)

lemma saveToLocal_result:
  assumes "saveToLocal X h c f t = (Inr r, t')"
  shows "\<exists>p n. r = [(''success'', JBool True), (''storage'', JStr ''local''),
                     (''localPath'', JStr p), (''fileName'', JStr n)]"
  using assms
  by (auto simp: saveToLocal_def Let_def split: option.splits sum.splits)

lemma uploadFile_result:
  assumes "uploadFile X h c f t = (Inr r, t')"
  shows "(\<exists>u b n. truthy (connectionString h)
            \<and> r = [(''success'', JBool True), (''storage'', JStr ''blob''),
                   (''url'', JStr u), (''blobName'', JStr b)]
            \<and> t' \<noteq> [] \<and> last t' = Returned (BlobUpload ''uploads'' b c n)
            \<and> upload_res X (butlast t') ''uploads'' b c n = None)
       \<or> (\<exists>p n. r = [(''success'', JBool True), (''storage'', JStr ''local''),
                     (''localPath'', JStr p), (''fileName'', JStr n)])"
  using assms
  by (auto simp: uploadFile_def Let_def split: if_splits prod.splits sum.splits
        dest: uploadToBlob_result saveToLocal_result)

lemma uploadFile_p1_result:
  assumes "uploadFile_p1 X h c f t = (Inr r, t')"
  shows "(\<exists>u b n. truthy (connectionString h)
            \<and> r = [(''success'', JBool True), (''storage'', JStr ''blob''),
                   (''url'', JStr u), (''blobName'', JStr b)]
            \<and> t' \<noteq> [] \<and> last t' = Returned (BlobUpload ''uploads'' b c n)
            \<and> upload_res X (butlast t') ''uploads'' b c n = None)
       \<or> (\<exists>p n. r = [(''success'', JBool True), (''storage'', JStr ''local''),
                     (''localPath'', JStr p), (''fileName'', JStr n)])"
  using assms
  by (auto simp: uploadFile_p1_def split: if_splits prod.splits sum.splits
        dest: uploadToBlob_result saveToLocal_result)






lemma blob_result_index:
  assumes "fst (uploadFile X h c f t) = Inr r" and "get_prop r ''storage'' = JStr ''blob''"
  shows "truthy (connectionString h) \<and> snd (uploadFile X h c f t) \<noteq> [] \<and>
      (\<exists>b n. get_prop r ''blobName'' = JStr b
         \<and> last (snd (uploadFile X h c f t)) = Returned (BlobUpload ''uploads'' b c n)
         \<and> upload_res X (butlast (snd (uploadFile X h c f t))) ''uploads'' b c n = None)"
proof -
  have "uploadFile X h c f t = (Inr r, snd (uploadFile X h c f t))"
    using assms(1) by (cases "uploadFile X h c f t") simp
  from uploadFile_result [OF this] assms(2) show ?thesis
    by (auto simp: get_prop_def)
qed

lemma blob_result_p1:
  assumes "fst (uploadFile_p1 X h c f t) = Inr r" and "get_prop r ''storage'' = JStr ''blob''"
  shows "truthy (connectionString h) \<and> snd (uploadFile_p1 X h c f t) \<noteq> [] \<and>
      (\<exists>b n. get_prop r ''blobName'' = JStr b
         \<and> last (snd (uploadFile_p1 X h c f t)) = Returned (BlobUpload ''uploads'' b c n)
         \<and> upload_res X (butlast (snd (uploadFile_p1 X h c f t))) ''uploads'' b c n = None)"
proof -
  have "uploadFile_p1 X h c f t = (Inr r, snd (uploadFile_p1 X h c f t))"
    using assms(1) by (cases "uploadFile_p1 X h c f t") simp
  from uploadFile_p1_result [OF this] assms(2) show ?thesis
    by (auto simp: get_prop_def)
qed

subsection \<open>Fallback to the local disk\<close>

text \<open>
  C1 (as amended). With a connection string configured and the blob attempt throwing,
  \<^verbatim>\<open>uploadFile\<close> goes on to the local write. It then either returns a result with
  \<^verbatim>\<open>storage: 'local'\<close> and \<^verbatim>\<open>success: true\<close>, right after \<^verbatim>\<open>fs.writeFile\<close> succeeded, or throws
  the error of \<^verbatim>\<open>fs.writeFile\<close>; the error of the blob attempt is never what the caller gets.
  The same holds of \<^verbatim>\<open>uploadFile\<close> in the ES module.
\<close>

theorem uploadFile_falls_back_to_local:
  "(truthy (connectionString h)
      \<and> fst (uploadToBlob X h c f ''uploads'' (ensureLocalUploadPath X h t)) = Inl e
    \<longrightarrow> stored_locally (uploadFile X h c f t) \<or> threw_local_write_error (uploadFile X h c f t))
   \<and> (truthy (connectionString h) \<and> fst (uploadToBlob X h c f ''uploads'' t) = Inl e
    \<longrightarrow> stored_locally (uploadFile_p1 X h c f t) \<or> threw_local_write_error (uploadFile_p1 X h c f t))"
proof (intro conjI impI)
  assume a: "truthy (connectionString h)
      \<and> fst (uploadToBlob X h c f ''uploads'' (ensureLocalUploadPath X h t)) = Inl e"
  obtain t2 where "uploadToBlob X h c f ''uploads'' (ensureLocalUploadPath X h t) = (Inl e, t2)"
    using a by (cases "uploadToBlob X h c f ''uploads'' (ensureLocalUploadPath X h t)") simp
  with a show "stored_locally (uploadFile X h c f t) \<or> threw_local_write_error (uploadFile X h c f t)"
    by (simp add: uploadFile_def Let_def saveToLocal_outcome)
next
  assume a: "truthy (connectionString h) \<and> fst (uploadToBlob X h c f ''uploads'' t) = Inl e"
  obtain t2 where "uploadToBlob X h c f ''uploads'' t = (Inl e, t2)"
    using a by (cases "uploadToBlob X h c f ''uploads'' t") simp
  with a show "stored_locally (uploadFile_p1 X h c f t)
      \<or> threw_local_write_error (uploadFile_p1 X h c f t)"
    by (simp add: uploadFile_p1_def saveToLocal_outcome)
qed

theorem uploadFile_falls_back_to_local_witness:
  "truthy (connectionString handler_with_blob)
   \<and> fst (uploadToBlob blob_down handler_with_blob hello ''a.txt'' ''uploads''
            (ensureLocalUploadPath blob_down handler_with_blob [])) = Inl (Error ''ECONNREFUSED'')
   \<and> fst (uploadToBlob blob_down handler_with_blob hello ''a.txt'' ''uploads'' [])
        = Inl (Error ''ECONNREFUSED'')
   \<and> stored_locally (uploadFile blob_down handler_with_blob hello ''a.txt'' [])
   \<and> stored_locally (uploadFile_p1 blob_down handler_with_blob hello ''a.txt'' [])"
  using uploadFile_falls_back_to_local [of handler_with_blob blob_down hello "''a.txt''" "[]" "Error ''ECONNREFUSED''"]
  by (simp add: concrete_defs run_defs)

text \<open>
  The claim as first stated promises a successful local result whenever the blob attempt
  fails. With the blob upload refused and the disk full, \<^verbatim>\<open>uploadFile\<close> throws instead.
\<close>

theorem uploadFile_blob_down_disk_full:
  "truthy (connectionString handler_with_blob)
   \<and> fst (uploadToBlob blob_down_disk_full handler_with_blob hello ''a.txt'' ''uploads''
            (ensureLocalUploadPath blob_down_disk_full handler_with_blob [])) = Inl (Error ''ECONNREFUSED'')
   \<and> fst (uploadFile blob_down_disk_full handler_with_blob hello ''a.txt'' [])
        = Inl (Error ''ENOSPC: no space left on device'')"
  by (simp add: concrete_defs run_defs)


subsection \<open>What \<^verbatim>\<open>uploadFile\<close> returns and what it throws\<close>




subsection \<open>No connection string: no remote call\<close>

text \<open>
  C4 (as amended). Without a connection string \<^verbatim>\<open>uploadFile\<close> makes no call on a remote
  client: the calls it adds to the trace are all local. It returns a result with
  \<^verbatim>\<open>storage: 'local'\<close> when \<^verbatim>\<open>fs.writeFile\<close> succeeds, and throws the error of
  \<^verbatim>\<open>fs.writeFile\<close> otherwise.
\<close>

theorem uploadFile_without_connection_string:
  assumes "\<not> truthy (connectionString h)"
  shows "(stored_locally (uploadFile X h c f t) \<or> threw_local_write_error (uploadFile X h c f t))
       \<and> take (length t) (snd (uploadFile X h c f t)) = t
       \<and> filter is_remote_call (calls_since t (snd (uploadFile X h c f t))) = []"
proof -
  obtain n1 where n1: "ensureLocalUploadPath X h t = t @ n1"
      "filter is_remote_call (map call_of n1) = []"
    using ensureLocalUploadPath_trace by blast
  let ?t1 = "t @ n1 @ [Returned (Console ''info''
             ''No Azure Storage connection string found, using local storage'')]"
  have uf: "uploadFile X h c f t = saveToLocal X h c f ?t1"
    using assms n1 by (simp add: uploadFile_def Let_def)
  obtain n2 where n2: "snd (saveToLocal X h c f ?t1) = ?t1 @ n2"
      "filter is_remote_call (map call_of n2) = []"
    using saveToLocal_trace by blast
  have "snd (uploadFile X h c f t) = t @ (n1 @ [Returned (Console ''info''
             ''No Azure Storage connection string found, using local storage'')] @ n2)"
    using uf n2 by simp
  then show ?thesis
    using uf n1 n2 saveToLocal_outcome [of X h c f ?t1]
    by (simp add: calls_since_def)
qed

theorem uploadFile_without_connection_string_witness:
  "\<not> truthy (connectionString handler_local_only)
   \<and> stored_locally (uploadFile services_up handler_local_only hello ''a.txt'' [])
   \<and> filter is_remote_call (calls_since [] (snd (uploadFile services_up handler_local_only hello ''a.txt'' []))) = []"
  using uploadFile_without_connection_string [of handler_local_only services_up hello "''a.txt''" "[]"]
  by (simp add: concrete_defs run_defs)

text \<open>
  The claim as first stated promises a local result for every input. With the disk full
  there is none: the error of the write is thrown.
\<close>

theorem uploadFile_local_only_disk_full:
  "\<not> truthy (connectionString handler_local_only)
   \<and> uploadFile disk_full handler_local_only hello ''a.txt'' []
     = (Inl (Error ''ENOSPC: no space left on device''),
        [Returned (FsMkdir ''uploads''),
         Returned (Console ''info'' ''No Azure Storage connection string found, using local storage''),
         Returned Uuidv4,
         Threw (FsWriteFile ''uploads/uuu-a.txt'' hello) (Error ''ENOSPC: no space left on device'')])"
  by (simp add: concrete_defs run_defs)

subsection \<open>A result says blob only after the blob upload\<close>

text \<open>
  C8. When \<^verbatim>\<open>uploadFile\<close> returns a result whose \<^verbatim>\<open>storage\<close> is \<^verbatim>\<open>'blob'\<close>, a connection
  string was configured and the last call of the run is the upload of the file's content
  under the result's \<^verbatim>\<open>blobName\<close>, which returned without throwing. The same holds of
  \<^verbatim>\<open>uploadFile\<close> in the ES module.
\<close>

theorem blob_reported_only_after_upload:
  "(fst (uploadFile X h c f t) = Inr r \<and> get_prop r ''storage'' = JStr ''blob'' \<longrightarrow>
      truthy (connectionString h) \<and> snd (uploadFile X h c f t) \<noteq> [] \<and>
      (\<exists>b n. get_prop r ''blobName'' = JStr b
         \<and> last (snd (uploadFile X h c f t)) = Returned (BlobUpload ''uploads'' b c n)
         \<and> upload_res X (butlast (snd (uploadFile X h c f t))) ''uploads'' b c n = None))
   \<and> (fst (uploadFile_p1 X h c f t) = Inr r \<and> get_prop r ''storage'' = JStr ''blob'' \<longrightarrow>
      truthy (connectionString h) \<and> snd (uploadFile_p1 X h c f t) \<noteq> [] \<and>
      (\<exists>b n. get_prop r ''blobName'' = JStr b
         \<and> last (snd (uploadFile_p1 X h c f t)) = Returned (BlobUpload ''uploads'' b c n)
         \<and> upload_res X (butlast (snd (uploadFile_p1 X h c f t))) ''uploads'' b c n = None))"
proof (rule conjI)
  show "fst (uploadFile X h c f t) = Inr r \<and> get_prop r ''storage'' = JStr ''blob'' \<longrightarrow>
      truthy (connectionString h) \<and> snd (uploadFile X h c f t) \<noteq> [] \<and>
      (\<exists>b n. get_prop r ''blobName'' = JStr b
         \<and> last (snd (uploadFile X h c f t)) = Returned (BlobUpload ''uploads'' b c n)
         \<and> upload_res X (butlast (snd (uploadFile X h c f t))) ''uploads'' b c n = None)"
    by (rule impI, erule conjE, rule blob_result_index)
  show "fst (uploadFile_p1 X h c f t) = Inr r \<and> get_prop r ''storage'' = JStr ''blob'' \<longrightarrow>
      truthy (connectionString h) \<and> snd (uploadFile_p1 X h c f t) \<noteq> [] \<and>
      (\<exists>b n. get_prop r ''blobName'' = JStr b
         \<and> last (snd (uploadFile_p1 X h c f t)) = Returned (BlobUpload ''uploads'' b c n)
         \<and> upload_res X (butlast (snd (uploadFile_p1 X h c f t))) ''uploads'' b c n = None)"
    by (rule impI, erule conjE, rule blob_result_p1)
qed

theorem blob_reported_only_after_upload_witness:
  "fst (uploadFile services_up handler_with_blob hello ''a.txt'' [])
     = Inr [(''success'', JBool True), (''storage'', JStr ''blob''),
            (''url'', JStr ''https://blob.example/uploads/uuuu-a.txt''),
            (''blobName'', JStr ''uuuu-a.txt'')]
   \<and> last (snd (uploadFile services_up handler_with_blob hello ''a.txt'' []))
     = Returned (BlobUpload ''uploads'' ''uuuu-a.txt'' hello 2)
   \<and> fst (uploadFile_p1 services_up handler_with_blob hello ''a.txt'' [])
     = Inr [(''success'', JBool True), (''storage'', JStr ''blob''),
            (''url'', JStr ''https://blob.example/uploads/uuu-a.txt''),
            (''blobName'', JStr ''uuu-a.txt'')]
   \<and> last (snd (uploadFile_p1 services_up handler_with_blob hello ''a.txt'' []))
     = Returned (BlobUpload ''uploads'' ''uuu-a.txt'' hello 2)"
  using blob_reported_only_after_upload [of services_up handler_with_blob hello "''a.txt''" "[]"
       "[(''success'', JBool True), (''storage'', JStr ''blob''),
            (''url'', JStr ''https://blob.example/uploads/uuuu-a.txt''),
            (''blobName'', JStr ''uuuu-a.txt'')]"]
    blob_reported_only_after_upload [of services_up handler_with_blob hello "''a.txt''" "[]"
       "[(''success'', JBool True), (''storage'', JStr ''blob''),
            (''url'', JStr ''https://blob.example/uploads/uuu-a.txt''),
            (''blobName'', JStr ''uuu-a.txt'')]"]
  by (simp add: concrete_defs run_defs)


subsection \<open>Generated names\<close>

text \<open>
  A result of \<^verbatim>\<open>uploadFile\<close> names the file \<^verbatim>\<open>uuid-fileName\<close>. The uuid is the one drawn two
  calls before the end of the run: the draw is followed by the write, or the upload, and
  nothing else.
\<close>

lemma saveToLocal_name:
  assumes "saveToLocal X h c f t = (Inr r, t')"
  shows "generatedName r = JStr (uuidv4_res X (butlast (butlast t')) @ ''-'' @ f)"
  using assms
  by (auto simp: saveToLocal_def Let_def generatedName_def get_prop_def butlast_append
        split: option.splits)

lemma uploadToBlob_name:
  assumes "uploadToBlob X h c f cn t = (Inr r, t')"
  shows "generatedName r = JStr (uuidv4_res X (butlast (butlast t')) @ ''-'' @ f)"
  using assms
  by (auto simp: uploadToBlob_def Let_def generatedName_def get_prop_def butlast_append
        split: option.splits sum.splits)

lemma uploadFile_p1_name:
  assumes "uploadFile_p1 X h c f t = (Inr r, t')"
  shows "generatedName r = JStr (uuidv4_res X (butlast (butlast t')) @ ''-'' @ f)"
proof (cases "truthy (connectionString h)")
  case False
  with assms show ?thesis
    by (simp add: uploadFile_p1_def saveToLocal_name)
next
  case True
  obtain res t2 where ub: "uploadToBlob X h c f ''uploads'' t = (res, t2)"
    by (cases "uploadToBlob X h c f ''uploads'' t")
  show ?thesis
  proof (cases res)
    case (Inr r')
    with True ub assms have "uploadToBlob X h c f ''uploads'' t = (Inr r, t')"
      by (simp add: uploadFile_p1_def)
    then show ?thesis by (rule uploadToBlob_name)
  next
    case (Inl e)
    with True ub assms show ?thesis
      by (simp add: uploadFile_p1_def saveToLocal_name)
  qed
qed

lemma uploadFile_name:
  assumes "uploadFile X h c f t = (Inr r, t')"
  shows "generatedName r = JStr (uuidv4_res X (butlast (butlast t')) @ ''-'' @ f)"
proof -
  have "uploadFile X h c f t = uploadFile_p1 X h c f (ensureLocalUploadPath X h t)"
    by (simp add: uploadFile_def uploadFile_p1_def Let_def)
  with assms show ?thesis by (simp add: uploadFile_p1_name)
qed

text \<open>
  Two results for the same file name therefore carry the same generated name exactly when
  the two draws gave the same uuid, in the module of the direct upload and in the ES module,
  whichever store each call used.
\<close>

lemma generated_names_differ:
  assumes "uploadFile X h c f t = (Inr r1, t1)" and "uploadFile X h' c f t' = (Inr r2, t2)"
  shows "generatedName r1 = generatedName r2
     \<longleftrightarrow> uuidv4_res X (butlast (butlast t1)) = uuidv4_res X (butlast (butlast t2))"
  by (simp add: uploadFile_name [OF assms(1)] uploadFile_name [OF assms(2)])

lemma generated_names_differ_p1:
  assumes "uploadFile_p1 X h c f t = (Inr r1, t1)" and "uploadFile_p1 X h' c f t' = (Inr r2, t2)"
  shows "generatedName r1 = generatedName r2
     \<longleftrightarrow> uuidv4_res X (butlast (butlast t1)) = uuidv4_res X (butlast (butlast t2))"
  by (simp add: uploadFile_p1_name [OF assms(1)] uploadFile_p1_name [OF assms(2)])

lemma generated_names_of_two_uploads:
  "generatedName (projr (fst (uploadFile services_up handler_with_blob hello ''a.txt'' [])))
     = JStr ''uuuu-a.txt''
   \<and> generatedName (projr (fst (uploadFile services_up handler_local_only hello ''a.txt''
        (snd (uploadFile services_up handler_with_blob hello ''a.txt'' [])))))
     = JStr ''uuuuuuuu-a.txt''"
  by (simp add: concrete_defs run_defs generatedName_def)

text \<open>
  C7. Two uploads of the same file name are to get two distinct generated names. The
  CommonJS module (\<^verbatim>\<open>src/unnamed/part_000\<close>) draws no uuid: \<^verbatim>\<open>saveToLocal\<close> called twice with
  \<^verbatim>\<open>a.txt\<close> writes twice to the same path \<^verbatim>\<open>uploads/a.txt\<close>, and \<^verbatim>\<open>uploadToBlob\<close> called twice
  with \<^verbatim>\<open>a.txt\<close> uploads twice to the same blob.
\<close>

theorem same_name_twice_in_commonjs_module:
  "saveToLocal_p0 services_up handler_local_only hello ''a.txt'' []
     = (Inr ''uploads/a.txt'', [Returned (FsWriteFile ''uploads/a.txt'' hello)])
   \<and> saveToLocal_p0 services_up handler_local_only hello ''a.txt''
       [Returned (FsWriteFile ''uploads/a.txt'' hello)]
     = (Inr ''uploads/a.txt'',
        [Returned (FsWriteFile ''uploads/a.txt'' hello), Returned (FsWriteFile ''uploads/a.txt'' hello)])
   \<and> fst (uploadToBlob_p0 services_up handler_with_blob hello ''a.txt'' ''uploads'' [])
     = Inr ''https://blob.example/uploads/a.txt''
   \<and> fst (uploadToBlob_p0 services_up handler_with_blob hello ''a.txt'' ''uploads''
        (snd (uploadToBlob_p0 services_up handler_with_blob hello ''a.txt'' ''uploads'' [])))
     = Inr ''https://blob.example/uploads/a.txt''"
  by (simp add: concrete_defs saveToLocal_p0_def uploadToBlob_p0_def Let_def)

section \<open>Properties of the endpoints\<close>

lemmas endpoint_defs =
  sharePointUpload_def sharePointUpload_failed_def sharePointUpload_p1_def
  sharePointUpload_p1_failed_def optional_files_def new_SharePointHandler_def
  new_SharePointHandler_p1_def getFileFromSharePoint_def imported_FileUploadHandler_def
  fileUpload_index_exports_def

subsection \<open>The loop of the direct upload\<close>

lemma process_files_acc:
  "process_files X h fs acc t
     = (acc @ fst (process_files X h fs [] t), snd (process_files X h fs [] t))"
proof (induction fs arbitrary: acc t)
  case Nil
  show ?case by simp
next
  case (Cons f fs)
  obtain r t' where step: "process_file X h f t = (r, t')"
    by (cases "process_file X h f t")
  have "process_files X h (f # fs) acc t = process_files X h fs (acc @ [r]) t'"
    using step by simp
  also have "\<dots> = ((acc @ [r]) @ fst (process_files X h fs [] t'), snd (process_files X h fs [] t'))"
    by (rule Cons.IH)
  finally have lhs: "process_files X h (f # fs) acc t
      = (acc @ r # fst (process_files X h fs [] t'), snd (process_files X h fs [] t'))"
    by simp
  have "process_files X h (f # fs) [] t = process_files X h fs [r] t'"
    using step by simp
  also have "\<dots> = ([r] @ fst (process_files X h fs [] t'), snd (process_files X h fs [] t'))"
    by (rule Cons.IH)
  finally have rhs: "process_files X h (f # fs) [] t
      = (r # fst (process_files X h fs [] t'), snd (process_files X h fs [] t'))"
    by simp
  show ?case by (simp only: lhs rhs fst_conv snd_conv)
qed

lemma process_files_Cons:
  "process_files X h (f # fs) [] t
     = (fst (process_file X h f t) # fst (process_files X h fs [] (snd (process_file X h f t))),
        snd (process_files X h fs [] (snd (process_file X h f t))))"
proof -
  obtain r t' where step: "process_file X h f t = (r, t')"
    by (cases "process_file X h f t")
  have "process_files X h (f # fs) [] t = process_files X h fs [r] t'"
    using step by simp
  also have "\<dots> = ([r] @ fst (process_files X h fs [] t'), snd (process_files X h fs [] t'))"
    by (rule process_files_acc)
  finally show ?thesis using step by simp
qed

lemma process_files_length: "length (fst (process_files X h fs [] t)) = length fs"
proof (induction fs arbitrary: t)
  case Nil
  show ?case by simp
next
  case (Cons f fs)
  show ?case by (simp only: process_files_Cons fst_conv list.size Cons.IH)
qed

lemma process_files_nth:
  "i < length fs \<Longrightarrow>
     fst (process_files X h fs [] t) ! i
       = fst (process_file X h (fs ! i) (snd (process_files X h (take i fs) [] t)))"
proof (induction fs arbitrary: i t)
  case Nil
  then show ?case by simp
next
  case (Cons f fs)
  show ?case
  proof (cases i)
    case 0
    then show ?thesis
      by (simp only: process_files_Cons fst_conv nth_Cons_0 take_0 process_files.simps(1) snd_conv)
  next
    case (Suc j)
    with Cons.prems have j: "j < length fs" by simp
    have "fst (process_files X h (f # fs) [] t) ! i
        = fst (process_files X h fs [] (snd (process_file X h f t))) ! j"
      using Suc by (simp only: process_files_Cons fst_conv nth_Cons_Suc)
    also have "\<dots> = fst (process_file X h (fs ! j)
          (snd (process_files X h (take j fs) [] (snd (process_file X h f t)))))"
      by (rule Cons.IH [OF j])
    also have "snd (process_files X h (take j fs) [] (snd (process_file X h f t)))
        = snd (process_files X h (take i (f # fs)) [] t)"
      using Suc by (simp only: take_Suc_Cons process_files_Cons snd_conv)
    finally show ?thesis using Suc by simp
  qed
qed

text \<open>
  The direct-upload endpoint answers a batch of N files with status 200 and N entries; the
  i-th entry is what the loop body makes of the i-th file, run after the files before it,
  whatever became of those: a throw of \<^verbatim>\<open>uploadFile\<close> becomes an entry with
  \<^verbatim>\<open>success: false\<close> (\<open>process_file_on_throw\<close>), a result an entry with \<^verbatim>\<open>success: true\<close>
  (\<open>process_file_on_result\<close>).
\<close>

lemma fileUpload_results_in_order:
  assumes "req_files = Some fs" and "fs \<noteq> []"
  shows "status (fst (fileUpload X e req_files t)) = 200
       \<and> (\<exists>results. get_prop (body (fst (fileUpload X e req_files t))) ''results'' = JArr results
            \<and> length results = length fs
            \<and> (\<forall>i < length fs. results ! i
                 = fst (process_file X (new_FileUploadHandler X e) (fs ! i)
                     (snd (process_files X (new_FileUploadHandler X e) (take i fs) [] t)))))"
proof -
  obtain f rest where fs: "fs = f # rest" using assms(2) by (cases fs) auto
  obtain results t' where run: "process_files X (new_FileUploadHandler X e) fs [] t = (results, t')"
    by (cases "process_files X (new_FileUploadHandler X e) fs [] t")
  have res: "results = fst (process_files X (new_FileUploadHandler X e) fs [] t)"
    using run by simp
  have "fileUpload X e req_files t =
      (\<lparr> status = 200,
         body = [(''message'', JStr ''Files processed successfully''), (''results'', JArr results)] \<rparr>, t')"
    using assms(1) fs run by (simp add: fileUpload_def Let_def)
  then show ?thesis
    by (simp add: get_prop_def res process_files_length process_files_nth)
qed

lemma fileUpload_three_files:
  "fst (fileUpload services_up env_configured
      (Some [\<lparr> buffer = hello, originalname = Some ''a.txt'' \<rparr>,
             \<lparr> buffer = NoContent, originalname = None \<rparr>,
             \<lparr> buffer = hello, originalname = Some ''c.txt'' \<rparr>]) [])
   = \<lparr> status = 200,
       body = [(''message'', JStr ''Files processed successfully''),
               (''results'', JArr
                  [JObj [(''fileName'', JStr ''a.txt''), (''success'', JBool True),
                         (''storage'', JStr ''blob''),
                         (''url'', JStr ''https://blob.example/uploads/uuuu-a.txt''),
                         (''blobName'', JStr ''uuuu-a.txt'')],
                   JObj [(''fileName'', JStr ''unnamed-file''), (''success'', JBool False),
                         (''error'', JStr
                            ''ERR_INVALID_ARG_TYPE: the data argument must be a string or a Buffer'')],
                   JObj [(''fileName'', JStr ''c.txt''), (''success'', JBool True),
                         (''storage'', JStr ''blob''),
                         (''url'', JStr ''https://blob.example/uploads/uuuuuuuuuuuuuuuu-c.txt''),
                         (''blobName'', JStr ''uuuuuuuuuuuuuuuu-c.txt'')]])] \<rparr>"
  by (simp add: concrete_defs run_defs fileUpload_def new_FileUploadHandler_def process_file_def
        js_of_def)

text \<open>
  C3. A batch of N units accepted for processing is to give N per-unit results in the order
  of the inputs. The SharePoint endpoint of \<^verbatim>\<open>src/functions/sharePointUpload/index.js\<close>,
  given three file references and all credentials, answers 500 with no result at all: the
  construction of \<^verbatim>\<open>FileUploadHandler\<close> throws before the loop starts.
\<close>

theorem sharePointUpload_three_files_no_results:
  "sharePointUpload services_up env_configured
       (Some \<lparr> files = Some [complete_file, file_without_itemId, complete_file] \<rparr>) []
     = (\<lparr> status = 500,
          body = [(''error'', JStr ''SharePoint upload failed''),
                  (''details'', JStr ''FileUploadHandler is not a constructor'')] \<rparr>,
        [Returned (NewClientSecretCredential (Some ''tenant-id'') (Some ''client-id'') (Some ''client-secret'')),
         Returned GraphInitWithMiddleware,
         Returned (ContextLog ''error'' ''SharePoint upload error:'')])"
  by (simp add: concrete_defs endpoint_defs truthy_def)

theorem sharePointUpload_three_files_no_results_witness:
  "status (fst (sharePointUpload services_up env_configured
       (Some \<lparr> files = Some [complete_file, file_without_itemId, complete_file] \<rparr>) [])) = 500
   \<and> get_prop (body (fst (sharePointUpload services_up env_configured
       (Some \<lparr> files = Some [complete_file, file_without_itemId, complete_file] \<rparr>) [])))
         ''results'' = JUndefined"
  by (simp add: sharePointUpload_three_files_no_results get_prop_def)

subsection \<open>Requests without files\<close>



text \<open>
  When \<^verbatim>\<open>request.json()\<close> throws (no body, or a body that does not parse) or gives \<^verbatim>\<open>null\<close>,
  the endpoint of the ES module never reaches the check of \<^verbatim>\<open>files\<close>: the outer \<^verbatim>\<open>catch\<close>
  logs the error and answers 500.
\<close>

lemma es_module_unparsed_body:
  "sharePointUpload_p1 X e (Inl err) t
     = (\<lparr> status = 500,
          body = [(''error'', JStr ''SharePoint upload failed''),
                  (''details'', JStr (message err))] \<rparr>,
        t @ [Returned (ContextLog ''error'' ''SharePoint upload error:'')])"
  "sharePointUpload_p1 X e (Inr None) t
     = (\<lparr> status = 500,
          body = [(''error'', JStr ''SharePoint upload failed''),
                  (''details'', JStr ''Cannot destructure property files of null'')] \<rparr>,
        t @ [Returned (ContextLog ''error'' ''SharePoint upload error:'')])"
  by (simp_all add: sharePointUpload_p1_def sharePointUpload_p1_failed_def)


subsection \<open>The import of \<^verbatim>\<open>FileUploadHandler\<close>\<close>

text \<open>
  C6. With client id and secret configured and a non-empty list of files, the SharePoint
  endpoint of \<^verbatim>\<open>src/functions/sharePointUpload/index.js\<close> answers 500. The module it
  requires exports no \<^verbatim>\<open>FileUploadHandler\<close>; unless the construction of the SharePoint
  handler has thrown already, the details of the answer are those of the failed
  construction of \<^verbatim>\<open>FileUploadHandler\<close>. The answer has no results, and no storage call and
  no fetch were made: no unit was processed.
\<close>

theorem sharePointUpload_always_500:
  assumes "truthy (SHAREPOINT_CLIENT_ID e)" and "truthy (SHAREPOINT_CLIENT_SECRET e)"
      and "optional_files req_body = Some fs" and "fs \<noteq> []"
  shows "status (fst (sharePointUpload X e req_body t)) = 500
       \<and> imported_FileUploadHandler = None
       \<and> get_prop (body (fst (sharePointUpload X e req_body t))) ''details''
           = JStr (case fst (new_SharePointHandler X e t) of
                     Inl err \<Rightarrow> message err
                   | Inr sp \<Rightarrow> ''FileUploadHandler is not a constructor'')
       \<and> get_prop (body (fst (sharePointUpload X e req_body t))) ''results'' = JUndefined
       \<and> take (length t) (snd (sharePointUpload X e req_body t)) = t
       \<and> filter (\<lambda>c. is_storage_call c \<or> is_fetch_call c)
            (calls_since t (snd (sharePointUpload X e req_body t))) = []"
proof -
  obtain f rest where fs: "fs = f # rest" using assms(4) by (cases fs) auto
  have imp: "imported_FileUploadHandler = None"
    by (simp add: imported_FileUploadHandler_def fileUpload_index_exports_def)
  show ?thesis
    using assms(1-3) fs imp
    by (auto simp: sharePointUpload_def sharePointUpload_failed_def new_SharePointHandler_def
          get_prop_def calls_since_def Let_def split: option.splits)
qed

theorem sharePointUpload_always_500_witness:
  "truthy (SHAREPOINT_CLIENT_ID env_configured) \<and> truthy (SHAREPOINT_CLIENT_SECRET env_configured)
   \<and> optional_files (Some \<lparr> files = Some [complete_file] \<rparr>) = Some [complete_file]
   \<and> sharePointUpload services_up env_configured (Some \<lparr> files = Some [complete_file] \<rparr>) []
     = (\<lparr> status = 500,
          body = [(''error'', JStr ''SharePoint upload failed''),
                  (''details'', JStr ''FileUploadHandler is not a constructor'')] \<rparr>,
        [Returned (NewClientSecretCredential (Some ''tenant-id'') (Some ''client-id'') (Some ''client-secret'')),
         Returned GraphInitWithMiddleware,
         Returned (ContextLog ''error'' ''SharePoint upload error:'')])"
  using sharePointUpload_always_500
    [of env_configured "Some \<lparr> files = Some [complete_file] \<rparr>" "[complete_file]" services_up "[]"]
  by (simp add: concrete_defs endpoint_defs truthy_def)

subsection \<open>File references with a missing field\<close>

text \<open>
  The loop body rejects a reference with a missing or empty field without any call, in
  both modules; the endpoint of the ES module reports it in a 200 answer and fetches only
  the complete reference.
\<close>

lemma missing_field_rejected:
  assumes "\<not> truthy (siteId file) \<or> \<not> truthy (driveId file) \<or> \<not> truthy (itemId file)
         \<or> \<not> truthy (fileName file)"
  shows "process_sharepoint_file X sp fh file t
           = (JObj [(''fileName'', JStr (or_default (fileName file) ''unknown'')),
                    (''success'', JBool False),
                    (''error'', JStr ''Missing required SharePoint file information'')], t)"
    and "process_sharepoint_file_p1 X sp fh file t
           = (JObj [(''fileName'', JStr (or_default (fileName file) ''unknown'')),
                    (''success'', JBool False),
                    (''error'', JStr ''Missing required SharePoint file information'')], t)"
  using assms by (auto simp: process_sharepoint_file_def process_sharepoint_file_p1_def)

lemma es_module_reports_missing_itemId:
  "sharePointUpload_p1 services_up env_configured
       (Inr (Some \<lparr> files = Some [file_without_itemId, complete_file] \<rparr>)) []
     = (\<lparr> status = 200,
          body = [(''message'', JStr ''SharePoint files processed''),
                  (''results'', JArr
                     [JObj [(''fileName'', JStr ''b.txt''), (''success'', JBool False),
                            (''error'', JStr ''Missing required SharePoint file information'')],
                      JObj [(''fileName'', JStr ''a.txt''), (''success'', JBool False),
                            (''error'', JStr ''fileHandler.uploadToBlob is not a function'')]])] \<rparr>,
        [Returned (NewClientSecretCredential (Some ''tenant-id'') (Some ''client-id'') (Some ''client-secret'')),
         Returned GraphInitWithMiddleware,
         Started (FsMkdir ''uploads''),
         Returned (GraphApiGet ''/sites/site/drives/drive/items/item/content'')])"
  by (simp add: concrete_defs endpoint_defs truthy_def or_default_def to_str_def
        process_sharepoint_file_p1_def new_FileUploadHandler_p1_def ensureLocalUploadPath_def
        getFileFromSharePoint_p1_def call_method_p1_def FileUploadHandler_p1_methods_def Let_def)

text \<open>
  C9. A unit without \<^verbatim>\<open>itemId\<close> is to give a per-unit failure result in the batch. The
  SharePoint endpoint of \<^verbatim>\<open>src/functions/sharePointUpload/index.js\<close>, given such a unit and
  all credentials, answers 500 and its body has no results: the loop that would reject the
  unit is never reached.
\<close>

theorem sharePointUpload_missing_itemId_no_result:
  "sharePointUpload services_up env_configured (Some \<lparr> files = Some [file_without_itemId] \<rparr>) []
     = (\<lparr> status = 500,
          body = [(''error'', JStr ''SharePoint upload failed''),
                  (''details'', JStr ''FileUploadHandler is not a constructor'')] \<rparr>,
        [Returned (NewClientSecretCredential (Some ''tenant-id'') (Some ''client-id'') (Some ''client-secret'')),
         Returned GraphInitWithMiddleware,
         Returned (ContextLog ''error'' ''SharePoint upload error:'')])"
  by (simp add: concrete_defs endpoint_defs truthy_def)

theorem sharePointUpload_missing_itemId_no_result_witness:
  "status (fst (sharePointUpload services_up env_configured
       (Some \<lparr> files = Some [file_without_itemId] \<rparr>) [])) = 500
   \<and> get_prop (body (fst (sharePointUpload services_up env_configured
       (Some \<lparr> files = Some [file_without_itemId] \<rparr>) []))) ''results'' = JUndefined
   \<and> filter is_fetch_call (calls_since [] (snd (sharePointUpload services_up env_configured
       (Some \<lparr> files = Some [file_without_itemId] \<rparr>) []))) = []"
  by (simp add: sharePointUpload_missing_itemId_no_result get_prop_def calls_since_def)

subsection \<open>Mock mode\<close>

text \<open>
  C10. When the SharePoint client id or the client secret is absent (so in particular when
  all credentials are), the endpoint answers 200 with \<^verbatim>\<open>mockMode: true\<close>, whatever the
  request; the only call it makes is the warning it logs. In that configuration the
  SharePoint handler is built without a client, and a fetch on it throws at once, without
  any call.
\<close>

theorem sharePointUpload_mock_mode:
  assumes "\<not> truthy (SHAREPOINT_CLIENT_ID e) \<or> \<not> truthy (SHAREPOINT_CLIENT_SECRET e)"
  shows "status (fst (sharePointUpload X e req_body t)) = 200
       \<and> get_prop (body (fst (sharePointUpload X e req_body t))) ''mockMode'' = JBool True
       \<and> snd (sharePointUpload X e req_body t)
           = t @ [Returned (ContextLog ''warn'' ''SharePoint credentials not configured, using mock data'')]
       \<and> new_SharePointHandler X e t' = (Inr \<lparr> client = None \<rparr>, t')
       \<and> getFileFromSharePoint X \<lparr> client = None \<rparr> s d i t'
           = (Inl (Error ''SharePoint client not initialized - missing credentials''), t')"
  using assms
  by (auto simp: sharePointUpload_def new_SharePointHandler_def getFileFromSharePoint_def get_prop_def)

theorem sharePointUpload_mock_mode_witness:
  "\<not> truthy (SHAREPOINT_CLIENT_ID env_local_only)
   \<and> \<not> truthy (SHAREPOINT_CLIENT_SECRET env_local_only)
   \<and> \<not> truthy (SHAREPOINT_TENANT_ID env_local_only)
   \<and> status (fst (sharePointUpload services_up env_local_only
         (Some \<lparr> files = Some [complete_file] \<rparr>) [])) = 200
   \<and> filter is_remote_call (calls_since [] (snd (sharePointUpload services_up env_local_only
         (Some \<lparr> files = Some [complete_file] \<rparr>) []))) = []
   \<and> getFileFromSharePoint services_up \<lparr> client = None \<rparr> ''site'' ''drive'' ''item'' []
           = (Inl (Error ''SharePoint client not initialized - missing credentials''), [])"
  using sharePointUpload_mock_mode
    [of env_local_only services_up "Some \<lparr> files = Some [complete_file] \<rparr>" "[]" "[]"
      "''site''" "''drive''" "''item''"]
  by (simp add: concrete_defs truthy_def calls_since_def)

end
